theory Spec2Isabelle
  imports Main "HOL-Library.Word" "HOL-Library.Sublist"
begin

section \<open>Value-difference analysis (taichi/analysis/value_diff.cpp)\<close>

text \<open>
  The pass reads an immutable graph of IR statements and answers two questions: how a value
  relates to one induction variable of a loop (\<open>value_diff_loop_index\<close>), and whether two
  values differ by a compile-time constant (\<open>value_diff_ptr_index\<close>).

  C++ \<open>int\<close> is a 32-bit word: \<open>+\<close>, \<open>-\<close> and unary minus wrap around.
\<close>

subsection \<open>The interval fact \<open>DiffRange\<close>\<close>

type_synonym int32 = "32 word"

text \<open>
  Modelled from the spec: the class \<open>DiffRange\<close> is declared in taichi/ir/analysis.h, not in
  value_diff.cpp. Section 3 gives its data: the flag \<open>related\<close>, read by \<open>related_()\<close>, and
  the integers \<open>coeff\<close>, \<open>low\<close> and \<open>high\<close>.
\<close>

record DiffRange =
  related :: bool
  coeff :: int32
  low :: int32
  high :: int32

text \<open>
  Modelled from the spec: the constructors of \<open>DiffRange\<close> are declared with the class. The
  four-argument constructor \<open>DiffRange(related, coeff, low, high)\<close> stores \<open>related\<close> and
  \<open>coeff\<close>; it stores the bounds of a related fact, and an unrelated fact has the bounds
  \<open>low = high = 0\<close>, the convention of section 3.
\<close>

definition DiffRange4 :: "bool \<Rightarrow> int32 \<Rightarrow> int32 \<Rightarrow> int32 \<Rightarrow> DiffRange" where
  "DiffRange4 r c l h =
     \<lparr>related = r, coeff = c, low = (if r then l else 0), high = (if r then h else 0)\<rparr>"

text \<open>
  Modelled from the spec: the three-argument constructor \<open>DiffRange(related, coeff, low)\<close>
  builds the exact value \<open>low\<close>, which section 3 represents as the half-open singleton
  \<open>low = c, high = c + 1\<close>.
\<close>

definition DiffRange3 :: "bool \<Rightarrow> int32 \<Rightarrow> int32 \<Rightarrow> DiffRange" where
  "DiffRange3 r c l = DiffRange4 r c l (l + 1)"

text \<open>
  Modelled from the spec: the two-argument constructor, written \<open>{false, 0}\<close> in the source,
  and the default constructor \<open>DiffRange()\<close> build the unrelated fact with \<open>coeff = 0\<close>,
  whose bounds are zero by the same convention.
\<close>

definition DiffRange2 :: "bool \<Rightarrow> int32 \<Rightarrow> DiffRange" where
  "DiffRange2 r c = DiffRange4 r c 0 0"

definition DiffRange0 :: DiffRange where
  "DiffRange0 = DiffRange2 False 0"

text \<open>\<open>operator+\<close> and \<open>operator-\<close> on facts; \<open>related_()\<close> reads the field \<open>related\<close>.\<close>

definition DiffRange_plus :: "DiffRange \<Rightarrow> DiffRange \<Rightarrow> DiffRange" where
  "DiffRange_plus a b =
     DiffRange4 (related a \<and> related b) (coeff a + coeff b) (low a + low b) (high a + high b - 1)"

definition DiffRange_minus :: "DiffRange \<Rightarrow> DiffRange \<Rightarrow> DiffRange" where
  "DiffRange_minus a b =
     DiffRange4 (related a \<and> related b) (coeff a - coeff b) (low a - high b + 1) (high a - low b)"

subsection \<open>The IR graph\<close>

text \<open>
  A \<open>Stmt *\<close> is an address in an arena of statements; the pass never writes to the graph.
  Every address holds a statement; the kinds the pass does not name are \<open>OtherStmt\<close>.
\<close>

type_synonym stmt_ref = nat

text \<open>
  Modelled from the spec: the enumerations \<open>PrimitiveTypeID\<close>, \<open>BinaryOpType\<close> and
  \<open>OffloadedStmt::TaskType\<close> are declared in other headers of taichi/ir. The pass tests for
  \<open>i32\<close>, for \<open>add\<close> and \<open>sub\<close> and for \<open>struct_for\<close>; the other members stand for
  the remaining numeric types, operators and task types.
\<close>

datatype PrimitiveTypeID = f16 | f32 | f64 | i8 | i16 | i32 | i64 | u8 | u16 | u32 | u64

datatype BinaryOpType = mul | add | sub | truediv | floordiv | bit_and | bit_or | bit_xor | cmp_lt | cmp_eq

datatype TaskType = serial | range_for | struct_for | listgen | gc

text \<open>
  Modelled from the spec: \<open>TypedConstant\<close> is declared in taichi/ir/ir.h. The pass reads its type
  \<open>dt\<close>, its member \<open>val_i32\<close> (only after checking that \<open>dt\<close> is \<open>i32\<close>) and the result
  of \<open>val_int()\<close>, the integer value of a loop bound, which it passes to the \<open>int\<close>
  parameters of the \<open>DiffRange\<close> constructor; the field \<open>val_int\<close> is that value as the
  constructor receives it.
\<close>

record TypedConstant =
  dt :: PrimitiveTypeID
  val_i32 :: int32
  val_int :: int32

text \<open>
  Modelled from the spec: the statement classes are declared in taichi/ir/statements.h and
  taichi/ir/ir.h. A constructor of \<open>StmtKind\<close> carries the members of its class that the pass
  reads: \<open>val\<close>; \<open>op_type\<close>, \<open>lhs\<close>, \<open>rhs\<close>; \<open>loop\<close>, \<open>index\<close>; \<open>elements\<close>, each
  a \<open>VectorElement\<close>; \<open>input\<close>, \<open>base\<close>, \<open>low\<close>, \<open>high\<close>; \<open>begin\<close>, \<open>end\<close>;
  \<open>task_type\<close>. Every statement has an \<open>instance_id\<close> and a \<open>width()\<close>.
\<close>

record VectorElement =
  stmt :: stmt_ref
  index :: int

datatype StmtKind =
    ConstStmt "TypedConstant list"
  | BinaryOpStmt BinaryOpType stmt_ref stmt_ref
  | LoopIndexStmt stmt_ref int
  | ElementShuffleStmt "VectorElement list"
  | RangeAssumptionStmt stmt_ref stmt_ref int32 int32
  | GlobalLoadStmt
  | RangeForStmt stmt_ref stmt_ref
  | StructForStmt
  | OffloadedStmt TaskType
  | OtherStmt

record Stmt =
  instance_id :: int
  width :: int
  kind :: StmtKind

type_synonym IR = "stmt_ref \<Rightarrow> Stmt"

text \<open>
  A failed \<open>TI_ASSERT\<close> aborts the pass. The assertions of the file are: the kind of the
  loop and the task type of a dispatch wrapper in \<open>value_diff_loop_index\<close>, and
  \<open>width() == 1\<close> in three places. Reading a lane that a statement does not have is the
  fourth failure.
\<close>

datatype error =
    Assert_loop_kind
  | Assert_task_type
  | Assert_width
  | Lane_out_of_range

text \<open>
  Modelled from the spec: \<open>LaneAttribute::operator[]\<close>, the access \<open>val[i]\<close> and
  \<open>elements[i]\<close>, is declared in taichi/ir/ir.h. An index within the lanes reads the lane;
  any other index fails.
\<close>

definition lane_at :: "'a list \<Rightarrow> int \<Rightarrow> error + 'a" where
  "lane_at xs i = (if 0 \<le> i \<and> i < int (length xs) then Inr (xs ! nat i) else Inl Lane_out_of_range)"

subsection \<open>The base + offset visitor \<open>FindDirectValueBaseAndOffset\<close>\<close>

text \<open>
  \<open>ret_type\<close> is the tuple (found, base, offset); the base is the only pointer of the pass
  that can be \<open>nullptr\<close>, here \<open>None\<close>.
\<close>

type_synonym base_offset = "bool \<times> stmt_ref option \<times> int32"

definition FindDirectValueBaseAndOffset_init :: base_offset where
  "FindDirectValueBaseAndOffset_init = (False, None, 0)"

definition FindDirectValueBaseAndOffset_visit_Stmt :: "base_offset \<Rightarrow> base_offset" where
  "FindDirectValueBaseAndOffset_visit_Stmt result = (False, None, 0)"

definition FindDirectValueBaseAndOffset_visit_ConstStmt ::
  "Stmt \<Rightarrow> TypedConstant list \<Rightarrow> base_offset \<Rightarrow> error + base_offset" where
  "FindDirectValueBaseAndOffset_visit_ConstStmt st val result =
     (if width st \<noteq> 1 then Inl Assert_width
      else case lane_at val 0 of
             Inl e \<Rightarrow> Inl e
           | Inr c \<Rightarrow> if dt c = i32 then Inr (True, None, val_i32 c) else Inr result)"

text \<open>
  \<open>visit(BinaryOpStmt)\<close>: \<open>rhs->accept(this)\<close> runs only when \<open>rhs\<close> is a \<open>ConstStmt\<close>,
  so it dispatches to \<open>visit(ConstStmt)\<close>.
\<close>

definition FindDirectValueBaseAndOffset_visit_BinaryOpStmt ::
  "IR \<Rightarrow> BinaryOpType \<Rightarrow> stmt_ref \<Rightarrow> stmt_ref \<Rightarrow> base_offset \<Rightarrow> error + base_offset" where
  "FindDirectValueBaseAndOffset_visit_BinaryOpStmt ir op_type lhs rhs result =
     (case (case kind (ir rhs) of
              ConstStmt val \<Rightarrow> FindDirectValueBaseAndOffset_visit_ConstStmt (ir rhs) val result
            | _ \<Rightarrow> Inr result) of
        Inl e \<Rightarrow> Inl e
      | Inr (found, base, offset) \<Rightarrow>
          if \<not> found \<or> base \<noteq> None \<or> (op_type \<noteq> add \<and> op_type \<noteq> sub)
          then Inr (False, None, 0)
          else Inr (found, Some lhs, if op_type = sub then - offset else offset))"

definition FindDirectValueBaseAndOffset_accept ::
  "IR \<Rightarrow> stmt_ref \<Rightarrow> base_offset \<Rightarrow> error + base_offset" where
  "FindDirectValueBaseAndOffset_accept ir s result =
     (case kind (ir s) of
        ConstStmt val \<Rightarrow> FindDirectValueBaseAndOffset_visit_ConstStmt (ir s) val result
      | BinaryOpStmt op_type lhs rhs \<Rightarrow>
          FindDirectValueBaseAndOffset_visit_BinaryOpStmt ir op_type lhs rhs result
      | _ \<Rightarrow> Inr (FindDirectValueBaseAndOffset_visit_Stmt result))"

definition FindDirectValueBaseAndOffset_run :: "IR \<Rightarrow> stmt_ref \<Rightarrow> error + base_offset" where
  "FindDirectValueBaseAndOffset_run ir val =
     FindDirectValueBaseAndOffset_accept ir val FindDirectValueBaseAndOffset_init"

text \<open>
  Modelled from the spec: \<open>DiffPtrResult\<close> is declared in taichi/ir/analysis.h; \<open>make_certain(d)\<close> is
  \<open>Certain d\<close> and \<open>make_uncertain()\<close> is \<open>Uncertain\<close>.
\<close>

datatype DiffPtrResult = Certain int32 | Uncertain

definition value_diff_ptr_index :: "IR \<Rightarrow> stmt_ref \<Rightarrow> stmt_ref \<Rightarrow> error + DiffPtrResult" where
  "value_diff_ptr_index ir val1 val2 =
     (if val1 = val2 then Inr (Certain 0)
      else case FindDirectValueBaseAndOffset_run ir val1 of
             Inl e \<Rightarrow> Inl e
           | Inr v1 \<Rightarrow>
               (case FindDirectValueBaseAndOffset_run ir val2 of
                  Inl e \<Rightarrow> Inl e
                | Inr v2 \<Rightarrow>
                    if \<not> fst v1 \<or> \<not> fst v2 \<or> fst (snd v1) \<noteq> fst (snd v2)
                    then Inr Uncertain
                    else Inr (Certain (snd (snd v1) - snd (snd v2)))))"

subsection \<open>The loop-relative visitor \<open>ValueDiffLoopIndex\<close>\<close>

text \<open>
  The visitor object. \<open>results\<close> is a \<open>std::map\<close> from \<open>int\<close> to \<open>DiffRange\<close>: \<open>operator[]\<close>
  default-constructs an entry that is missing, so the table reads as \<open>DiffRange()\<close> wherever
  nothing was stored. \<open>visited\<close> is a ghost field, not a member of the class: the sequence
  of statements on which \<open>accept\<close> was called.
\<close>

record ValueDiffLoopIndex =
  lane :: int
  input_stmt :: stmt_ref
  loop :: stmt_ref
  loop_index :: int
  results :: "int \<Rightarrow> DiffRange"
  visited :: "stmt_ref list"

definition ValueDiffLoopIndex_init ::
  "stmt_ref \<Rightarrow> int \<Rightarrow> stmt_ref \<Rightarrow> int \<Rightarrow> ValueDiffLoopIndex" where
  "ValueDiffLoopIndex_init s ln lp lp_index =
     \<lparr>lane = ln, input_stmt = s, loop = lp, loop_index = lp_index,
      results = (\<lambda>_. DiffRange0), visited = []\<rparr>"

text \<open>\<open>results[stmt->instance_id] = d\<close>\<close>

definition set_result :: "Stmt \<Rightarrow> DiffRange \<Rightarrow> ValueDiffLoopIndex \<Rightarrow> ValueDiffLoopIndex" where
  "set_result st d v = v\<lparr>results := (results v)(instance_id st := d)\<rparr>"

text \<open>
  A traversal either runs out of fuel (\<open>None\<close>), aborts on an assertion (\<open>Some (Inl e)\<close>)
  or returns (\<open>Some (Inr x)\<close>).
\<close>

type_synonym 'a outcome = "(error + 'a) option"

definition ValueDiffLoopIndex_visit_Stmt :: "Stmt \<Rightarrow> ValueDiffLoopIndex \<Rightarrow> ValueDiffLoopIndex" where
  "ValueDiffLoopIndex_visit_Stmt st v = set_result st DiffRange0 v"

definition ValueDiffLoopIndex_visit_GlobalLoadStmt ::
  "Stmt \<Rightarrow> ValueDiffLoopIndex \<Rightarrow> ValueDiffLoopIndex" where
  "ValueDiffLoopIndex_visit_GlobalLoadStmt st v = set_result st DiffRange0 v"

definition ValueDiffLoopIndex_visit_LoopIndexStmt ::
  "IR \<Rightarrow> Stmt \<Rightarrow> stmt_ref \<Rightarrow> int \<Rightarrow> ValueDiffLoopIndex \<Rightarrow> error + ValueDiffLoopIndex" where
  "ValueDiffLoopIndex_visit_LoopIndexStmt ir st lp idx v =
     (let v0 = set_result st DiffRange0 v in
      if lp = loop v \<and> idx = loop_index v then Inr (set_result st (DiffRange3 True 1 0) v0)
      else case kind (ir lp) of
             RangeForStmt begin end \<Rightarrow>
               (case (kind (ir begin), kind (ir end)) of
                  (ConstStmt begin_val, ConstStmt end_val) \<Rightarrow>
                    (case lane_at begin_val 0 of
                       Inl e \<Rightarrow> Inl e
                     | Inr b \<Rightarrow>
                         (case lane_at end_val 0 of
                            Inl e \<Rightarrow> Inl e
                          | Inr e \<Rightarrow>
                              Inr (set_result st (DiffRange4 True 0 (val_int b) (val_int e)) v0)))
                | _ \<Rightarrow> Inr v0)
           | _ \<Rightarrow> Inr v0)"

definition ValueDiffLoopIndex_visit_ConstStmt ::
  "Stmt \<Rightarrow> TypedConstant list \<Rightarrow> ValueDiffLoopIndex \<Rightarrow> error + ValueDiffLoopIndex" where
  "ValueDiffLoopIndex_visit_ConstStmt st val v =
     (case lane_at val (lane v) of
        Inl e \<Rightarrow> Inl e
      | Inr c \<Rightarrow>
          if dt c = i32 then Inr (set_result st (DiffRange3 True 0 (val_i32 c)) v)
          else Inr (set_result st DiffRange0 v))"

text \<open>
  The three visits that descend take \<open>accept\<close> of the visitor as the argument \<open>acc\<close>.
\<close>

definition ValueDiffLoopIndex_visit_ElementShuffleStmt ::
  "(stmt_ref \<Rightarrow> ValueDiffLoopIndex \<Rightarrow> ValueDiffLoopIndex outcome) \<Rightarrow> IR \<Rightarrow> Stmt \<Rightarrow>
   VectorElement list \<Rightarrow> ValueDiffLoopIndex \<Rightarrow> ValueDiffLoopIndex outcome" where
  "ValueDiffLoopIndex_visit_ElementShuffleStmt acc ir st elements v =
     (let old_lane = lane v in
      if width st \<noteq> 1 then Some (Inl Assert_width)
      else case lane_at elements (lane v) of
             Inl e \<Rightarrow> Some (Inl e)
           | Inr el \<Rightarrow>
               (case acc (stmt el) (v\<lparr>lane := index el\<rparr>) of
                  None \<Rightarrow> None
                | Some (Inl e) \<Rightarrow> Some (Inl e)
                | Some (Inr v1) \<Rightarrow>
                    Some (Inr ((set_result st (results v1 (instance_id (ir (stmt el)))) v1)
                                 \<lparr>lane := old_lane\<rparr>))))"

definition ValueDiffLoopIndex_visit_RangeAssumptionStmt ::
  "(stmt_ref \<Rightarrow> ValueDiffLoopIndex \<Rightarrow> ValueDiffLoopIndex outcome) \<Rightarrow> IR \<Rightarrow> Stmt \<Rightarrow>
   stmt_ref \<Rightarrow> int32 \<Rightarrow> int32 \<Rightarrow> ValueDiffLoopIndex \<Rightarrow> ValueDiffLoopIndex outcome" where
  "ValueDiffLoopIndex_visit_RangeAssumptionStmt acc ir st base lo hi v =
     (case acc base v of
        None \<Rightarrow> None
      | Some (Inl e) \<Rightarrow> Some (Inl e)
      | Some (Inr v1) \<Rightarrow>
          Some (Inr (set_result st
                       (DiffRange_plus (results v1 (instance_id (ir base))) (DiffRange4 True 0 lo hi))
                       v1)))"

definition ValueDiffLoopIndex_visit_BinaryOpStmt ::
  "(stmt_ref \<Rightarrow> ValueDiffLoopIndex \<Rightarrow> ValueDiffLoopIndex outcome) \<Rightarrow> IR \<Rightarrow> Stmt \<Rightarrow>
   BinaryOpType \<Rightarrow> stmt_ref \<Rightarrow> stmt_ref \<Rightarrow> ValueDiffLoopIndex \<Rightarrow> ValueDiffLoopIndex outcome" where
  "ValueDiffLoopIndex_visit_BinaryOpStmt acc ir st op_type lhs rhs v =
     (if op_type = add \<or> op_type = sub then
        (case acc lhs v of
           None \<Rightarrow> None
         | Some (Inl e) \<Rightarrow> Some (Inl e)
         | Some (Inr v1) \<Rightarrow>
             (case acc rhs v1 of
                None \<Rightarrow> None
              | Some (Inl e) \<Rightarrow> Some (Inl e)
              | Some (Inr v2) \<Rightarrow>
                  (let ret1 = results v2 (instance_id (ir lhs));
                       ret2 = results v2 (instance_id (ir rhs))
                   in if related ret1 \<and> related ret2 then
                        (if op_type = add then Some (Inr (set_result st (DiffRange_plus ret1 ret2) v2))
                         else Some (Inr (set_result st (DiffRange_minus ret1 ret2) v2)))
                      else Some (Inr (set_result st (DiffRange2 False 0) v2)))))
      else Some (Inr (set_result st (DiffRange2 False 0) v)))"

text \<open>
  \<open>stmt->accept(this)\<close> dispatches on the kind of the statement; kinds without a \<open>visit\<close> of
  their own go to \<open>visit(Stmt *)\<close>. The recursion follows operand pointers, so it is bounded
  by fuel: one unit for each nested \<open>accept\<close>.
\<close>

primrec ValueDiffLoopIndex_accept ::
  "nat \<Rightarrow> IR \<Rightarrow> stmt_ref \<Rightarrow> ValueDiffLoopIndex \<Rightarrow> ValueDiffLoopIndex outcome" where
  "ValueDiffLoopIndex_accept 0 ir s v = None"
| "ValueDiffLoopIndex_accept (Suc n) ir s v =
     (let st = ir s; w = v\<lparr>visited := visited v @ [s]\<rparr> in
      case kind st of
        ConstStmt val \<Rightarrow> Some (ValueDiffLoopIndex_visit_ConstStmt st val w)
      | BinaryOpStmt op_type lhs rhs \<Rightarrow>
          ValueDiffLoopIndex_visit_BinaryOpStmt (ValueDiffLoopIndex_accept n ir) ir st op_type lhs rhs w
      | LoopIndexStmt lp idx \<Rightarrow> Some (ValueDiffLoopIndex_visit_LoopIndexStmt ir st lp idx w)
      | ElementShuffleStmt elements \<Rightarrow>
          ValueDiffLoopIndex_visit_ElementShuffleStmt (ValueDiffLoopIndex_accept n ir) ir st elements w
      | RangeAssumptionStmt input base lo hi \<Rightarrow>
          ValueDiffLoopIndex_visit_RangeAssumptionStmt (ValueDiffLoopIndex_accept n ir) ir st base lo hi w
      | GlobalLoadStmt \<Rightarrow> Some (Inr (ValueDiffLoopIndex_visit_GlobalLoadStmt st w))
      | _ \<Rightarrow> Some (Inr (ValueDiffLoopIndex_visit_Stmt st w)))"

definition ValueDiffLoopIndex_run :: "nat \<Rightarrow> IR \<Rightarrow> ValueDiffLoopIndex \<Rightarrow> DiffRange outcome" where
  "ValueDiffLoopIndex_run n ir v =
     (case ValueDiffLoopIndex_accept n ir (input_stmt v) v of
        None \<Rightarrow> None
      | Some (Inl e) \<Rightarrow> Some (Inl e)
      | Some (Inr v1) \<Rightarrow> Some (Inr (results v1 (instance_id (ir (input_stmt v1))))))"

text \<open>\<open>loop->is<StructForStmt>()\<close> and \<open>loop->is<OffloadedStmt>()\<close>\<close>

definition is_StructForStmt :: "Stmt \<Rightarrow> bool" where
  "is_StructForStmt st = (case kind st of StructForStmt \<Rightarrow> True | _ \<Rightarrow> False)"

definition is_OffloadedStmt :: "Stmt \<Rightarrow> bool" where
  "is_OffloadedStmt st = (case kind st of OffloadedStmt t \<Rightarrow> True | _ \<Rightarrow> False)"

definition value_diff_loop_index ::
  "nat \<Rightarrow> IR \<Rightarrow> stmt_ref \<Rightarrow> stmt_ref \<Rightarrow> int \<Rightarrow> DiffRange outcome" where
  "value_diff_loop_index n ir s lp index_id =
     (if \<not> (is_StructForStmt (ir lp) \<or> is_OffloadedStmt (ir lp))
      then Some (Inl Assert_loop_kind)
      else if (case kind (ir lp) of OffloadedStmt t \<Rightarrow> t \<noteq> struct_for | _ \<Rightarrow> False)
      then Some (Inl Assert_task_type)
      else if (case kind (ir s) of LoopIndexStmt l i \<Rightarrow> l = lp \<and> i = index_id | _ \<Rightarrow> False)
      then Some (Inr (DiffRange3 True 1 0))
      else if width (ir s) \<noteq> 1 then Some (Inl Assert_width)
      else ValueDiffLoopIndex_run n ir (ValueDiffLoopIndex_init s 0 lp index_id))"

subsection \<open>Notions used in the statements\<close>

text \<open>\<open>stmt->is<ConstStmt>()\<close>\<close>

definition is_ConstStmt :: "Stmt \<Rightarrow> bool" where
  "is_ConstStmt st = (case kind st of ConstStmt val \<Rightarrow> True | _ \<Rightarrow> False)"

text \<open>The two failures a traversal can meet once the loop kind has been accepted.\<close>

definition traversal_error :: "error \<Rightarrow> bool" where
  "traversal_error e = (e = Assert_width \<or> e = Lane_out_of_range)"

text \<open>
  The members of the visitor that decide where a traversal goes, with the ghost sequence of
  visits: everything but the table \<open>results\<close> and \<open>input_stmt\<close>.
\<close>

definition walk :: "ValueDiffLoopIndex \<Rightarrow> int \<times> stmt_ref \<times> int \<times> stmt_ref list" where
  "walk v = (lane v, loop v, loop_index v, visited v)"

definition walk_of ::
  "ValueDiffLoopIndex outcome \<Rightarrow> (int \<times> stmt_ref \<times> int \<times> stmt_ref list) outcome" where
  "walk_of r = map_option (map_sum id walk) r"

text \<open>The pointers that \<open>accept\<close> can follow from a statement.\<close>

definition operands :: "Stmt \<Rightarrow> stmt_ref list" where
  "operands st =
     (case kind st of
        BinaryOpStmt op_type lhs rhs \<Rightarrow> [lhs, rhs]
      | ElementShuffleStmt elements \<Rightarrow> map stmt elements
      | RangeAssumptionStmt input base lo hi \<Rightarrow> [base]
      | _ \<Rightarrow> [])"

subsection \<open>Example graphs\<close>

text \<open>
  A fresh statement of width 1 whose \<open>instance_id\<close> is its address, and the arena in which
  every address holds a statement of no particular kind.
\<close>

definition new_stmt :: "stmt_ref \<Rightarrow> StmtKind \<Rightarrow> Stmt" where
  "new_stmt s k = \<lparr>instance_id = int s, width = 1, kind = k\<rparr>"

definition empty_IR :: IR where
  "empty_IR s = new_stmt s OtherStmt"

definition const_i32 :: "int32 \<Rightarrow> StmtKind" where
  "const_i32 c = ConstStmt [\<lparr>dt = i32, val_i32 = c, val_int = c\<rparr>]"

text \<open>The addresses \<open>base_ptr + 4\<close> (statement 3) and \<open>base_ptr + 12\<close> (statement 5).\<close>

definition ptr_IR :: IR where
  "ptr_IR = empty_IR
     (1 := new_stmt 1 GlobalLoadStmt,
      2 := new_stmt 2 (const_i32 4),
      3 := new_stmt 3 (BinaryOpStmt add 1 2),
      4 := new_stmt 4 (const_i32 12),
      5 := new_stmt 5 (BinaryOpStmt add 1 4))"

text \<open>A constant statement of two lanes, hence of width 2.\<close>

definition wide_IR :: IR where
  "wide_IR = empty_IR
     (1 := \<lparr>instance_id = 1, width = 2,
            kind = ConstStmt [\<lparr>dt = i32, val_i32 = 4, val_int = 4\<rparr>,
                              \<lparr>dt = i32, val_i32 = 5, val_int = 5\<rparr>]\<rparr>)"

text \<open>
  A graph with the structured loop 2 and its index 3, the range loop 11 over \<open>[0, 10)\<close> and
  its index 12, the dispatch wrappers 14 and 15, and the values \<open>load + idx\<close> (4),
  \<open>idx + 3\<close> (6), \<open>idx + 3 - 1\<close> (8) and \<open>c + c\<close> (13), whose operands are one node.
\<close>

definition loop_IR :: IR where
  "loop_IR = empty_IR
     (1 := new_stmt 1 GlobalLoadStmt,
      2 := new_stmt 2 StructForStmt,
      3 := new_stmt 3 (LoopIndexStmt 2 0),
      4 := new_stmt 4 (BinaryOpStmt add 1 3),
      5 := new_stmt 5 (const_i32 3),
      6 := new_stmt 6 (BinaryOpStmt add 3 5),
      7 := new_stmt 7 (const_i32 1),
      8 := new_stmt 8 (BinaryOpStmt sub 6 7),
      9 := new_stmt 9 (const_i32 0),
      10 := new_stmt 10 (const_i32 10),
      11 := new_stmt 11 (RangeForStmt 9 10),
      12 := new_stmt 12 (LoopIndexStmt 11 0),
      13 := new_stmt 13 (BinaryOpStmt add 5 5),
      14 := new_stmt 14 (OffloadedStmt struct_for),
      15 := new_stmt 15 (OffloadedStmt range_for))"

section \<open>Composition of facts\<close>

text \<open>
  C4, as stated, fails for an unrelated operand: the sum of the unrelated fact \<open>DiffRange()\<close>
  and the constant fact 3, whose bounds are 3 and 4, is unrelated with \<open>low = high = 0\<close>,
  not \<open>low = 0 + 3\<close> and \<open>high = 0 + 4 - 1\<close>; likewise for the difference.
\<close>

theorem DiffRange_composition_unrelated_counterexample:
  "DiffRange_plus DiffRange0 (DiffRange3 True 0 3)
     = \<lparr>related = False, coeff = 0, low = 0, high = 0\<rparr>
   \<and> low DiffRange0 + low (DiffRange3 True 0 3) = 3
   \<and> high DiffRange0 + high (DiffRange3 True 0 3) - 1 = 3
   \<and> DiffRange_minus (DiffRange3 True 1 0) DiffRange0
     = \<lparr>related = False, coeff = 1, low = 0, high = 0\<rparr>
   \<and> low (DiffRange3 True 1 0) - high DiffRange0 + 1 = 1
   \<and> high (DiffRange3 True 1 0) - low DiffRange0 = 1"
  by (simp add: DiffRange_plus_def DiffRange_minus_def DiffRange4_def DiffRange3_def
      DiffRange2_def DiffRange0_def)

text \<open>
  C4, amended. For all facts \<open>a\<close> and \<open>b\<close>, \<open>a + b\<close> and \<open>a - b\<close> are related exactly
  when both are, with the sum, resp. the difference, of the coefficients. When \<open>a\<close> and
  \<open>b\<close> are both related, \<open>a + b\<close> has the low bound \<open>low a + low b\<close> and the high bound
  \<open>high a + high b - 1\<close>, \<open>a - b\<close> has the low bound \<open>low a - high b + 1\<close> and the high
  bound \<open>high a - low b\<close>, and the bounds of \<open>a + b\<close> add up to those of \<open>a\<close> and \<open>b\<close>
  minus one. When one of them is unrelated, both bounds of \<open>a + b\<close> and of \<open>a - b\<close> are
  zero. All equations are in 32-bit arithmetic.
\<close>

theorem DiffRange_composition:
  "related (DiffRange_plus a b) = (related a \<and> related b)
   \<and> coeff (DiffRange_plus a b) = coeff a + coeff b
   \<and> related (DiffRange_minus a b) = (related a \<and> related b)
   \<and> coeff (DiffRange_minus a b) = coeff a - coeff b
   \<and> (related a \<and> related b \<longrightarrow>
        low (DiffRange_plus a b) = low a + low b
        \<and> high (DiffRange_plus a b) = high a + high b - 1
        \<and> low (DiffRange_minus a b) = low a - high b + 1
        \<and> high (DiffRange_minus a b) = high a - low b
        \<and> low (DiffRange_plus a b) + high (DiffRange_plus a b)
            = low a + high a + low b + high b - 1)
   \<and> (\<not> (related a \<and> related b) \<longrightarrow>
        low (DiffRange_plus a b) = 0 \<and> high (DiffRange_plus a b) = 0
        \<and> low (DiffRange_minus a b) = 0 \<and> high (DiffRange_minus a b) = 0)"
  by (simp add: DiffRange_plus_def DiffRange_minus_def DiffRange4_def)

text \<open>
  The facts of \<open>idx\<close> (\<open>coeff = 1\<close>, bounds 0 and 1) and of the constant 3 (bounds 3 and
  4): their sum and their difference; and the sum of \<open>idx\<close> and an unrelated fact.
\<close>

theorem DiffRange_composition_witness:
  "related (DiffRange3 True 1 0) \<and> related (DiffRange3 True 0 3)
   \<and> DiffRange_plus (DiffRange3 True 1 0) (DiffRange3 True 0 3)
        = \<lparr>related = True, coeff = 1, low = 3, high = 4\<rparr>
   \<and> DiffRange_minus (DiffRange3 True 1 0) (DiffRange3 True 0 3)
        = \<lparr>related = True, coeff = 1, low = - 3, high = - 2\<rparr>
   \<and> DiffRange_plus (DiffRange3 True 1 0) DiffRange0
        = \<lparr>related = False, coeff = 1, low = 0, high = 0\<rparr>"
proof -
  have r: "related (DiffRange3 True 1 0)" "related (DiffRange3 True 0 3)" "\<not> related DiffRange0"
    and f: "coeff (DiffRange3 True 1 0) = 1" "low (DiffRange3 True 1 0) = 0"
      "high (DiffRange3 True 1 0) = 1" "coeff (DiffRange3 True 0 3) = 0"
      "low (DiffRange3 True 0 3) = 3" "high (DiffRange3 True 0 3) = 4" "coeff DiffRange0 = 0"
    by (simp_all add: DiffRange3_def DiffRange4_def DiffRange2_def DiffRange0_def)
  from DiffRange_composition [of "DiffRange3 True 1 0" "DiffRange3 True 0 3"]
    DiffRange_composition [of "DiffRange3 True 1 0" DiffRange0] r f
  have "related (DiffRange_plus (DiffRange3 True 1 0) (DiffRange3 True 0 3))"
    "coeff (DiffRange_plus (DiffRange3 True 1 0) (DiffRange3 True 0 3)) = 1"
    "low (DiffRange_plus (DiffRange3 True 1 0) (DiffRange3 True 0 3)) = 3"
    "high (DiffRange_plus (DiffRange3 True 1 0) (DiffRange3 True 0 3)) = 4"
    "related (DiffRange_minus (DiffRange3 True 1 0) (DiffRange3 True 0 3))"
    "coeff (DiffRange_minus (DiffRange3 True 1 0) (DiffRange3 True 0 3)) = 1"
    "low (DiffRange_minus (DiffRange3 True 1 0) (DiffRange3 True 0 3)) = - 3"
    "high (DiffRange_minus (DiffRange3 True 1 0) (DiffRange3 True 0 3)) = - 2"
    "\<not> related (DiffRange_plus (DiffRange3 True 1 0) DiffRange0)"
    "coeff (DiffRange_plus (DiffRange3 True 1 0) DiffRange0) = 1"
    "low (DiffRange_plus (DiffRange3 True 1 0) DiffRange0) = 0"
    "high (DiffRange_plus (DiffRange3 True 1 0) DiffRange0) = 0"
    by simp_all
  with r show ?thesis
    by (simp add: DiffRange.equality)
qed

section \<open>Base + offset decomposition and comparison\<close>

lemmas example_defs = new_stmt_def empty_IR_def const_i32_def ptr_IR_def wide_IR_def loop_IR_def

lemmas FindDirectValueBaseAndOffset_defs =
  FindDirectValueBaseAndOffset_run_def FindDirectValueBaseAndOffset_accept_def
  FindDirectValueBaseAndOffset_visit_ConstStmt_def FindDirectValueBaseAndOffset_visit_BinaryOpStmt_def
  FindDirectValueBaseAndOffset_visit_Stmt_def FindDirectValueBaseAndOffset_init_def lane_at_def

lemma FindDirectValueBaseAndOffset_run_ConstStmt:
  assumes "kind (ir s) = ConstStmt (c # cs)" and "width (ir s) = 1"
  shows "FindDirectValueBaseAndOffset_run ir s =
           Inr (if dt c = i32 then (True, None, val_i32 c) else (False, None, 0))"
  using assms by (simp add: FindDirectValueBaseAndOffset_defs)

text \<open>
  C2. For distinct statements \<open>val1\<close> and \<open>val2\<close> whose decompositions return
  \<open>(found1, base1, offset1)\<close> and \<open>(found2, base2, offset2)\<close>, \<open>value_diff_ptr_index\<close>
  returns \<open>Uncertain\<close> exactly when one of them is not found or the bases are not the same
  pointer, and \<open>Certain (offset1 - offset2)\<close> otherwise.
\<close>

theorem value_diff_ptr_index_distinct:
  assumes "val1 \<noteq> val2"
    and "FindDirectValueBaseAndOffset_run ir val1 = Inr (found1, base1, offset1)"
    and "FindDirectValueBaseAndOffset_run ir val2 = Inr (found2, base2, offset2)"
  shows "(value_diff_ptr_index ir val1 val2 = Inr Uncertain
            \<longleftrightarrow> \<not> found1 \<or> \<not> found2 \<or> base1 \<noteq> base2)
         \<and> (found1 \<and> found2 \<and> base1 = base2
            \<longrightarrow> value_diff_ptr_index ir val1 val2 = Inr (Certain (offset1 - offset2)))"
  using assms by (simp add: value_diff_ptr_index_def)

text \<open>
  On \<open>ptr_IR\<close>: \<open>base_ptr + 4\<close> against \<open>base_ptr + 12\<close> is \<open>Certain (- 8)\<close>, and
  \<open>base_ptr + 4\<close> against the load \<open>base_ptr\<close>, which does not decompose, is \<open>Uncertain\<close>.
\<close>

theorem value_diff_ptr_index_distinct_witness:
  "(3::nat) \<noteq> 5
   \<and> FindDirectValueBaseAndOffset_run ptr_IR 3 = Inr (True, Some 1, 4)
   \<and> FindDirectValueBaseAndOffset_run ptr_IR 5 = Inr (True, Some 1, 12)
   \<and> value_diff_ptr_index ptr_IR 3 5 = Inr (Certain (- 8))
   \<and> value_diff_ptr_index ptr_IR 3 1 = Inr Uncertain"
proof -
  have d: "(3::nat) \<noteq> 5" "(3::nat) \<noteq> 1" by simp_all
  have r3: "FindDirectValueBaseAndOffset_run ptr_IR 3 = Inr (True, Some 1, 4)"
    by (simp add: FindDirectValueBaseAndOffset_defs example_defs)
  have r5: "FindDirectValueBaseAndOffset_run ptr_IR 5 = Inr (True, Some 1, 12)"
    by (simp add: FindDirectValueBaseAndOffset_defs example_defs)
  have r1: "FindDirectValueBaseAndOffset_run ptr_IR 1 = Inr (False, None, 0)"
    by (simp add: FindDirectValueBaseAndOffset_defs example_defs)
  from value_diff_ptr_index_distinct [of 3 5 ptr_IR, OF d(1) r3 r5]
    value_diff_ptr_index_distinct [of 3 1 ptr_IR, OF d(2) r3 r1] r3 r5
  show ?thesis by simp
qed

text \<open>
  C8. For every statement \<open>v\<close>, \<open>value_diff_ptr_index v v\<close> is \<open>Certain 0\<close>: the pointer
  comparison answers before any decomposition, so no assertion of the decomposition can fail.
\<close>

theorem value_diff_ptr_index_same: "value_diff_ptr_index ir v v = Inr (Certain 0)"
  by (simp add: value_diff_ptr_index_def)

text \<open>
  On \<open>ptr_IR\<close>: \<open>base_ptr + 4\<close> against itself. On \<open>wide_IR\<close>: the constant of width 2
  against itself, although its decomposition would fail the assertion on the width.
\<close>

theorem value_diff_ptr_index_same_witness:
  "value_diff_ptr_index ptr_IR 3 3 = Inr (Certain 0)
   \<and> FindDirectValueBaseAndOffset_run wide_IR 1 = Inl Assert_width
   \<and> value_diff_ptr_index wide_IR 1 1 = Inr (Certain 0)"
proof -
  have "FindDirectValueBaseAndOffset_run wide_IR 1 = Inl Assert_width"
    by (simp add: FindDirectValueBaseAndOffset_defs example_defs)
  with value_diff_ptr_index_same [of ptr_IR 3] value_diff_ptr_index_same [of wide_IR 1]
  show ?thesis by simp
qed

text \<open>
  C5, as stated, fails: a constant of type \<open>i64\<close> with value 7 is an integer constant, and
  its decomposition is not found.
\<close>

theorem decompose_const_i64_counterexample:
  "FindDirectValueBaseAndOffset_run
     (empty_IR (1 := new_stmt 1 (ConstStmt [\<lparr>dt = i64, val_i32 = 7, val_int = 7\<rparr>]))) 1
   = Inr (False, None, 0)"
  by (simp add: FindDirectValueBaseAndOffset_defs example_defs)

text \<open>
  C5, amended. For every constant statement of width 1 whose lane 0 holds the constant \<open>c\<close>:
  if the type of \<open>c\<close> is \<open>i32\<close> the decomposition is found with a null base and offset
  \<open>val_i32 c\<close>; for any other type it is not found.
\<close>

theorem decompose_const:
  assumes "kind (ir s) = ConstStmt (c # cs)" and "width (ir s) = 1"
  shows "(dt c = i32 \<longrightarrow> FindDirectValueBaseAndOffset_run ir s = Inr (True, None, val_i32 c))
         \<and> (dt c \<noteq> i32 \<longrightarrow> FindDirectValueBaseAndOffset_run ir s = Inr (False, None, 0))"
  using assms FindDirectValueBaseAndOffset_run_ConstStmt [of ir s c cs] by simp

theorem decompose_const_witness:
  "kind (ptr_IR 2) = ConstStmt (\<lparr>dt = i32, val_i32 = 4, val_int = 4\<rparr> # []) \<and> width (ptr_IR 2) = 1
   \<and> FindDirectValueBaseAndOffset_run ptr_IR 2 = Inr (True, None, 4)"
proof -
  have k: "kind (ptr_IR 2) = ConstStmt (\<lparr>dt = i32, val_i32 = 4, val_int = 4\<rparr> # [])"
    and w: "width (ptr_IR 2) = 1"
    by (simp_all add: example_defs)
  from decompose_const [of ptr_IR 2 _ "[]"] k w show ?thesis by simp
qed

text \<open>
  C10. Two distinct constant statements of width 1 and type \<open>i32\<close>, with values \<open>c1\<close> and
  \<open>c2\<close>, both decompose to a null base; the null bases compare equal, and
  \<open>value_diff_ptr_index\<close> returns \<open>Certain (c1 - c2)\<close>.
\<close>

theorem value_diff_ptr_index_consts:
  assumes "val1 \<noteq> val2"
    and "kind (ir val1) = ConstStmt (c1 # cs1)" and "width (ir val1) = 1" and "dt c1 = i32"
    and "kind (ir val2) = ConstStmt (c2 # cs2)" and "width (ir val2) = 1" and "dt c2 = i32"
  shows "FindDirectValueBaseAndOffset_run ir val1 = Inr (True, None, val_i32 c1)
         \<and> FindDirectValueBaseAndOffset_run ir val2 = Inr (True, None, val_i32 c2)
         \<and> value_diff_ptr_index ir val1 val2 = Inr (Certain (val_i32 c1 - val_i32 c2))"
  using assms FindDirectValueBaseAndOffset_run_ConstStmt [of ir val1 c1 cs1]
    FindDirectValueBaseAndOffset_run_ConstStmt [of ir val2 c2 cs2]
  by (simp add: value_diff_ptr_index_def)

text \<open>On \<open>ptr_IR\<close>: the constants 4 and 12 differ by \<open>- 8\<close>.\<close>

theorem value_diff_ptr_index_consts_witness:
  "value_diff_ptr_index ptr_IR 2 4 = Inr (Certain (- 8))"
proof -
  have "(2::nat) \<noteq> 4" by simp
  moreover have "kind (ptr_IR 2) = ConstStmt (\<lparr>dt = i32, val_i32 = 4, val_int = 4\<rparr> # [])"
    "width (ptr_IR 2) = 1" "dt \<lparr>dt = i32, val_i32 = 4 :: int32, val_int = 4 :: int32\<rparr> = i32"
    "kind (ptr_IR 4) = ConstStmt (\<lparr>dt = i32, val_i32 = 12, val_int = 12\<rparr> # [])"
    "width (ptr_IR 4) = 1" "dt \<lparr>dt = i32, val_i32 = 12 :: int32, val_int = 12 :: int32\<rparr> = i32"
    by (simp_all add: example_defs)
  ultimately show ?thesis
    using value_diff_ptr_index_consts [of 2 4 ptr_IR] by simp
qed

section \<open>The loop-relative visitor\<close>

subsection \<open>Failures of a traversal\<close>

lemma lane_at_error: "lane_at xs i = Inl e \<Longrightarrow> traversal_error e"
  by (simp add: lane_at_def traversal_error_def split: if_splits)

lemma lane_at_in_set: "lane_at xs i = Inr x \<Longrightarrow> x \<in> set xs"
  by (auto simp: lane_at_def split: if_splits)

lemma visit_ConstStmt_error:
  "ValueDiffLoopIndex_visit_ConstStmt st val v = Inl e \<Longrightarrow> traversal_error e"
  by (auto simp: ValueDiffLoopIndex_visit_ConstStmt_def dest: lane_at_error
      split: sum.splits if_splits)

lemma visit_LoopIndexStmt_error:
  "ValueDiffLoopIndex_visit_LoopIndexStmt ir st lp idx v = Inl e \<Longrightarrow> traversal_error e"
  by (auto simp: ValueDiffLoopIndex_visit_LoopIndexStmt_def Let_def dest: lane_at_error
      split: sum.splits if_splits StmtKind.splits)

lemma visit_BinaryOpStmt_error:
  assumes "\<And>s v e. acc s v = Some (Inl e) \<Longrightarrow> traversal_error e"
    and "ValueDiffLoopIndex_visit_BinaryOpStmt acc ir st op_type lhs rhs v = Some (Inl e)"
  shows "traversal_error e"
  using assms(2) assms(1)
  by (auto simp: ValueDiffLoopIndex_visit_BinaryOpStmt_def Let_def
      split: option.splits sum.splits if_splits)

lemma visit_RangeAssumptionStmt_error:
  assumes "\<And>s v e. acc s v = Some (Inl e) \<Longrightarrow> traversal_error e"
    and "ValueDiffLoopIndex_visit_RangeAssumptionStmt acc ir st base lo hi v = Some (Inl e)"
  shows "traversal_error e"
  using assms(2) assms(1)
  by (auto simp: ValueDiffLoopIndex_visit_RangeAssumptionStmt_def
      split: option.splits sum.splits)

lemma visit_ElementShuffleStmt_error:
  assumes "\<And>s v e. acc s v = Some (Inl e) \<Longrightarrow> traversal_error e"
    and "ValueDiffLoopIndex_visit_ElementShuffleStmt acc ir st elements v = Some (Inl e)"
  shows "traversal_error e"
  using assms(2) assms(1)
  by (auto simp: ValueDiffLoopIndex_visit_ElementShuffleStmt_def Let_def traversal_error_def
      dest: lane_at_error [unfolded traversal_error_def]
      split: option.splits sum.splits if_splits)

lemma accept_error:
  "ValueDiffLoopIndex_accept n ir s v = Some (Inl e) \<Longrightarrow> traversal_error e"
proof (induction n arbitrary: s v e)
  case 0
  then show ?case by simp
next
  case (Suc n)
  show ?case
  proof (cases "kind (ir s)")
    case (ConstStmt val)
    with Suc.prems show ?thesis by (auto simp: Let_def dest: visit_ConstStmt_error)
  next
    case (BinaryOpStmt op_type lhs rhs)
    with Suc.prems show ?thesis
      by (auto simp: Let_def intro: visit_BinaryOpStmt_error [OF Suc.IH])
  next
    case (LoopIndexStmt lp idx)
    with Suc.prems show ?thesis by (auto simp: Let_def dest: visit_LoopIndexStmt_error)
  next
    case (ElementShuffleStmt elements)
    with Suc.prems show ?thesis
      by (auto simp: Let_def intro: visit_ElementShuffleStmt_error [OF Suc.IH])
  next
    case (RangeAssumptionStmt input base lo hi)
    with Suc.prems show ?thesis
      by (auto simp: Let_def intro: visit_RangeAssumptionStmt_error [OF Suc.IH])
  qed (use Suc.prems in \<open>simp_all add: Let_def\<close>)
qed

lemma run_error:
  "ValueDiffLoopIndex_run n ir v = Some (Inl e) \<Longrightarrow> traversal_error e"
  by (auto simp: ValueDiffLoopIndex_run_def dest: accept_error split: option.splits sum.splits)

subsection \<open>The loop kinds that \<open>value_diff_loop_index\<close> accepts\<close>

lemmas ValueDiffLoopIndex_defs =
  value_diff_loop_index_def ValueDiffLoopIndex_run_def ValueDiffLoopIndex_init_def
  is_StructForStmt_def is_OffloadedStmt_def
  ValueDiffLoopIndex_visit_BinaryOpStmt_def ValueDiffLoopIndex_visit_ConstStmt_def
  ValueDiffLoopIndex_visit_LoopIndexStmt_def ValueDiffLoopIndex_visit_GlobalLoadStmt_def
  ValueDiffLoopIndex_visit_Stmt_def set_result_def lane_at_def
  DiffRange_plus_def DiffRange_minus_def DiffRange4_def DiffRange3_def DiffRange2_def
  DiffRange0_def

text \<open>
  C1, as stated, fails: on \<open>loop_IR\<close> the loop 11 is a range-bounded for loop, and
  \<open>value_diff_loop_index\<close> on its own induction variable 12 fails the loop-kind assertion.
\<close>

theorem value_diff_loop_index_range_for_counterexample:
  "kind (loop_IR 11) = RangeForStmt 9 10
   \<and> value_diff_loop_index 1 loop_IR 12 11 0 = Some (Inl Assert_loop_kind)"
  by (simp add: ValueDiffLoopIndex_defs example_defs)

text \<open>
  C1, amended. \<open>value_diff_loop_index\<close> fails one of its two loop-kind assertions exactly
  when \<open>loop\<close> is neither a \<open>StructForStmt\<close> nor an \<open>OffloadedStmt\<close> whose task type is
  \<open>struct_for\<close>; a \<open>RangeForStmt\<close> is among the loop kinds that fail. This holds for every
  value, index and amount of fuel.
\<close>

theorem value_diff_loop_index_loop_kind:
  "(value_diff_loop_index n ir s lp index_id = Some (Inl Assert_loop_kind)
      \<or> value_diff_loop_index n ir s lp index_id = Some (Inl Assert_task_type))
   \<longleftrightarrow> \<not> (kind (ir lp) = StructForStmt \<or> kind (ir lp) = OffloadedStmt struct_for)"
proof (cases "kind (ir lp) = StructForStmt \<or> kind (ir lp) = OffloadedStmt struct_for")
  case True
  have "ValueDiffLoopIndex_run n ir w \<noteq> Some (Inl Assert_loop_kind)"
    "ValueDiffLoopIndex_run n ir w \<noteq> Some (Inl Assert_task_type)" for w
    using run_error [of n ir w] by (auto simp: traversal_error_def)
  with True show ?thesis
    by (auto simp: value_diff_loop_index_def is_StructForStmt_def is_OffloadedStmt_def)
next
  case False
  then show ?thesis
    by (auto simp: value_diff_loop_index_def is_StructForStmt_def is_OffloadedStmt_def
        split: StmtKind.splits)
qed

text \<open>
  On \<open>loop_IR\<close>: the structured loop 2 and the wrapper 14 of task type \<open>struct_for\<close> pass;
  the wrapper 15 of task type \<open>range_for\<close> and the range loop 11 fail.
\<close>

theorem value_diff_loop_index_loop_kind_witness:
  "value_diff_loop_index 3 loop_IR 8 2 0 \<noteq> Some (Inl Assert_loop_kind)
   \<and> value_diff_loop_index 3 loop_IR 8 2 0 \<noteq> Some (Inl Assert_task_type)
   \<and> value_diff_loop_index 3 loop_IR 8 14 0 \<noteq> Some (Inl Assert_loop_kind)
   \<and> value_diff_loop_index 3 loop_IR 8 14 0 \<noteq> Some (Inl Assert_task_type)
   \<and> (value_diff_loop_index 3 loop_IR 8 15 0 = Some (Inl Assert_loop_kind)
        \<or> value_diff_loop_index 3 loop_IR 8 15 0 = Some (Inl Assert_task_type))
   \<and> (value_diff_loop_index 3 loop_IR 8 11 0 = Some (Inl Assert_loop_kind)
        \<or> value_diff_loop_index 3 loop_IR 8 11 0 = Some (Inl Assert_task_type))"
proof -
  have "kind (loop_IR 2) = StructForStmt" "kind (loop_IR 14) = OffloadedStmt struct_for"
    "kind (loop_IR 15) = OffloadedStmt range_for" "kind (loop_IR 11) = RangeForStmt 9 10"
    by (simp_all add: example_defs)
  with value_diff_loop_index_loop_kind [of 3 loop_IR 8 2 0]
    value_diff_loop_index_loop_kind [of 3 loop_IR 8 14 0]
    value_diff_loop_index_loop_kind [of 3 loop_IR 8 15 0]
    value_diff_loop_index_loop_kind [of 3 loop_IR 8 11 0]
  show ?thesis by simp
qed

subsection \<open>Constants\<close>

text \<open>
  C6, as stated, fails in its high bound: on \<open>loop_IR\<close> the \<open>i32\<close> constant 3 (statement 5)
  yields the fact with \<open>low = 3\<close> and \<open>high = 4\<close>, not \<open>high = 3\<close>.
\<close>

theorem value_diff_loop_index_const_counterexample:
  "value_diff_loop_index 1 loop_IR 5 2 0
   = Some (Inr \<lparr>related = True, coeff = 0, low = 3, high = 4\<rparr>)"
  by (simp add: ValueDiffLoopIndex_defs example_defs)

text \<open>
  C6, amended. When the loop-relative visitor visits a constant statement whose current lane
  holds the constant \<open>c\<close>: if the type of \<open>c\<close> is \<open>i32\<close> the fact stored for the statement
  is \<open>related = true, coeff = 0, low = val_i32 c, high = val_i32 c + 1\<close>, the half-open
  singleton of section 3; for any other type it is the unrelated fact.
\<close>

theorem visit_ConstStmt_fact:
  assumes "lane_at val (lane v) = Inr c"
  shows "(dt c = i32 \<longrightarrow>
            ValueDiffLoopIndex_visit_ConstStmt st val v =
              Inr (set_result st \<lparr>related = True, coeff = 0, low = val_i32 c, high = val_i32 c + 1\<rparr> v))
         \<and> (dt c \<noteq> i32 \<longrightarrow>
            ValueDiffLoopIndex_visit_ConstStmt st val v =
              Inr (set_result st \<lparr>related = False, coeff = 0, low = 0, high = 0\<rparr> v))"
  using assms
  by (simp add: ValueDiffLoopIndex_visit_ConstStmt_def DiffRange3_def DiffRange4_def
      DiffRange0_def DiffRange2_def)

text \<open>The \<open>i32\<close> constant 3 and an \<open>f32\<close> constant, both visited at lane 0.\<close>

theorem visit_ConstStmt_fact_witness:
  "lane_at [\<lparr>dt = i32, val_i32 = 3, val_int = 3\<rparr>] (lane (ValueDiffLoopIndex_init 5 0 2 0))
     = Inr \<lparr>dt = i32, val_i32 = 3, val_int = 3\<rparr>
   \<and> ValueDiffLoopIndex_visit_ConstStmt (loop_IR 5) [\<lparr>dt = i32, val_i32 = 3, val_int = 3\<rparr>]
        (ValueDiffLoopIndex_init 5 0 2 0)
     = Inr (set_result (loop_IR 5) \<lparr>related = True, coeff = 0, low = 3, high = 4\<rparr>
             (ValueDiffLoopIndex_init 5 0 2 0))
   \<and> ValueDiffLoopIndex_visit_ConstStmt (loop_IR 5) [\<lparr>dt = f32, val_i32 = 3, val_int = 3\<rparr>]
        (ValueDiffLoopIndex_init 5 0 2 0)
     = Inr (set_result (loop_IR 5) \<lparr>related = False, coeff = 0, low = 0, high = 0\<rparr>
             (ValueDiffLoopIndex_init 5 0 2 0))"
proof -
  have l: "lane_at [c] (lane (ValueDiffLoopIndex_init 5 0 2 0)) = Inr c" for c :: TypedConstant
    by (simp add: lane_at_def ValueDiffLoopIndex_init_def)
  from visit_ConstStmt_fact [OF l, of "\<lparr>dt = i32, val_i32 = 3, val_int = 3\<rparr>" "loop_IR 5"]
    visit_ConstStmt_fact [OF l, of "\<lparr>dt = f32, val_i32 = 3, val_int = 3\<rparr>" "loop_IR 5"] l
  show ?thesis by simp
qed

subsection \<open>References to induction variables\<close>

lemma set_result_twice [simp]: "set_result st d (set_result st d' v) = set_result st d v"
  by (simp add: set_result_def)

lemma visit_LoopIndexStmt_tracked:
  "lp = loop w \<Longrightarrow> idx = loop_index w \<Longrightarrow>
   ValueDiffLoopIndex_visit_LoopIndexStmt ir st lp idx w =
     Inr (w\<lparr>results := (results w)(instance_id st := DiffRange3 True 1 0)\<rparr>)"
  by (simp add: ValueDiffLoopIndex_visit_LoopIndexStmt_def set_result_def)

lemma visit_LoopIndexStmt_range:
  "\<not> (lp = loop w \<and> idx = loop_index w) \<Longrightarrow> kind (ir lp) = RangeForStmt b e \<Longrightarrow>
   kind (ir b) = ConstStmt (L # bs) \<Longrightarrow> kind (ir e) = ConstStmt (H # es) \<Longrightarrow>
   ValueDiffLoopIndex_visit_LoopIndexStmt ir st lp idx w =
     Inr (w\<lparr>results := (results w)(instance_id st :=
            \<lparr>related = True, coeff = 0, low = val_int L, high = val_int H\<rparr>)\<rparr>)"
proof -
  assume "\<not> (lp = loop w \<and> idx = loop_index w)"
  then have c: "(lp = loop w \<and> idx = loop_index w) = False" by simp
  assume "kind (ir lp) = RangeForStmt b e" "kind (ir b) = ConstStmt (L # bs)"
    "kind (ir e) = ConstStmt (H # es)"
  then show ?thesis
    by (simp add: ValueDiffLoopIndex_visit_LoopIndexStmt_def set_result_def DiffRange4_def
        lane_at_def c)
qed

lemma visit_LoopIndexStmt_other:
  assumes "\<not> (lp = loop w \<and> idx = loop_index w)"
    and "case kind (ir lp) of
           RangeForStmt b' e' \<Rightarrow> \<not> (is_ConstStmt (ir b') \<and> is_ConstStmt (ir e'))
         | _ \<Rightarrow> True"
  shows "ValueDiffLoopIndex_visit_LoopIndexStmt ir st lp idx w =
     Inr (w\<lparr>results := (results w)(instance_id st :=
            \<lparr>related = False, coeff = 0, low = 0, high = 0\<rparr>)\<rparr>)"
proof (cases "kind (ir lp)")
  from assms(1) have c: "(lp = loop w \<and> idx = loop_index w) = False" by simp
  case (RangeForStmt b' e')
  with assms(2) have "\<not> (is_ConstStmt (ir b') \<and> is_ConstStmt (ir e'))" by simp
  then have "(case (kind (ir b'), kind (ir e')) of
               (ConstStmt x, ConstStmt y) \<Rightarrow> P x y | _ \<Rightarrow> Q) = Q" for P and Q :: "error + ValueDiffLoopIndex"
    by (cases "kind (ir b')"; cases "kind (ir e')") (simp_all add: is_ConstStmt_def)
  with RangeForStmt show ?thesis
    by (simp add: ValueDiffLoopIndex_visit_LoopIndexStmt_def set_result_def DiffRange4_def
        DiffRange0_def DiffRange2_def c)
qed (use assms(1) in \<open>auto simp: ValueDiffLoopIndex_visit_LoopIndexStmt_def set_result_def
      DiffRange4_def DiffRange0_def DiffRange2_def\<close>)

lemma value_diff_loop_index_LoopIndexStmt:
  assumes "kind (ir lp0) = StructForStmt \<or> kind (ir lp0) = OffloadedStmt struct_for"
    and "kind (ir s) = LoopIndexStmt lp idx" and "width (ir s) = 1"
    and "\<not> (lp = lp0 \<and> idx = idx0)"
    and "ValueDiffLoopIndex_visit_LoopIndexStmt ir (ir s) lp idx
           ((ValueDiffLoopIndex_init s 0 lp0 idx0)\<lparr>visited := [s]\<rparr>)
         = Inr (((ValueDiffLoopIndex_init s 0 lp0 idx0)\<lparr>visited := [s]\<rparr>)
                 \<lparr>results := (results ((ValueDiffLoopIndex_init s 0 lp0 idx0)\<lparr>visited := [s]\<rparr>))
                     (instance_id (ir s) := d)\<rparr>)"
  shows "value_diff_loop_index (Suc n) ir s lp0 idx0 = Some (Inr d)"
proof -
  have ok: "is_StructForStmt (ir lp0) \<or> is_OffloadedStmt (ir lp0)"
    "\<not> (case kind (ir lp0) of OffloadedStmt t \<Rightarrow> t \<noteq> struct_for | _ \<Rightarrow> False)"
    using assms(1) by (auto simp: is_StructForStmt_def is_OffloadedStmt_def)
  have v: "visited (ValueDiffLoopIndex_init s 0 lp0 idx0) = []"
    "input_stmt (ValueDiffLoopIndex_init s 0 lp0 idx0) = s"
    by (simp_all add: ValueDiffLoopIndex_init_def)
  from assms(4) have c: "(lp = lp0 \<and> idx = idx0) = False" by simp
  show ?thesis
    using ok assms(2,3) v
    by (simp add: value_diff_loop_index_def ValueDiffLoopIndex_run_def assms(5) c)
qed

text \<open>
  C7. Let the visitor \<open>v\<close> track \<open>(loop, loop_index)\<close>, where \<open>loop\<close> has passed the
  loop-kind assertions of \<open>value_diff_loop_index\<close>. When it visits a reference \<open>st\<close> to the
  induction variable \<open>idx\<close> of the loop \<open>lp\<close>, the visit returns \<open>v\<close> with one entry of
  the table changed, the one of \<open>st\<close>: if \<open>lp = loop\<close> and \<open>idx = loop_index\<close> the entry is
  \<open>DiffRange(true, 1, 0)\<close>, with \<open>related = true, coeff = 1, low = 0\<close>; if \<open>lp\<close> is a
  different loop, a \<open>RangeForStmt\<close> whose \<open>begin\<close> and \<open>end\<close> are constant statements with
  values \<open>L\<close> and \<open>H\<close> (what \<open>val_int()\<close> gives for lane 0), the entry is
  \<open>related = true, coeff = 0, low = L, high = H\<close>; for every other reference (a loop that
  is not a range loop with two constant bounds, or the tracked loop with another index) it is
  the unrelated fact. The query \<open>value_diff_loop_index\<close> on such a reference of width 1
  returns the same three facts; on the tracked induction variable it returns
  \<open>DiffRange(true, 1, 0)\<close> at once, whatever the width and the fuel.
\<close>

theorem visit_LoopIndexStmt_fact:
  assumes "kind (ir (loop v)) = StructForStmt \<or> kind (ir (loop v)) = OffloadedStmt struct_for"
  shows "(lp = loop v \<and> idx = loop_index v \<longrightarrow>
            ValueDiffLoopIndex_visit_LoopIndexStmt ir st lp idx v =
              Inr (v\<lparr>results := (results v)(instance_id st := DiffRange3 True 1 0)\<rparr>)
            \<and> related (DiffRange3 True 1 0) \<and> coeff (DiffRange3 True 1 0) = 1
            \<and> low (DiffRange3 True 1 0) = 0)
         \<and> (lp \<noteq> loop v \<and> kind (ir lp) = RangeForStmt b e
              \<and> kind (ir b) = ConstStmt (L # bs) \<and> kind (ir e) = ConstStmt (H # es) \<longrightarrow>
            ValueDiffLoopIndex_visit_LoopIndexStmt ir st lp idx v =
              Inr (v\<lparr>results := (results v)(instance_id st :=
                     \<lparr>related = True, coeff = 0, low = val_int L, high = val_int H\<rparr>)\<rparr>))
         \<and> (\<not> (lp = loop v \<and> idx = loop_index v)
              \<and> (case kind (ir lp) of
                    RangeForStmt b' e' \<Rightarrow> \<not> (is_ConstStmt (ir b') \<and> is_ConstStmt (ir e'))
                  | _ \<Rightarrow> True) \<longrightarrow>
            ValueDiffLoopIndex_visit_LoopIndexStmt ir st lp idx v =
              Inr (v\<lparr>results := (results v)(instance_id st :=
                     \<lparr>related = False, coeff = 0, low = 0, high = 0\<rparr>)\<rparr>))
         \<and> (lp = loop v \<and> idx \<noteq> loop_index v \<longrightarrow>
            ValueDiffLoopIndex_visit_LoopIndexStmt ir st lp idx v =
              Inr (v\<lparr>results := (results v)(instance_id st :=
                     \<lparr>related = False, coeff = 0, low = 0, high = 0\<rparr>)\<rparr>))
         \<and> (kind (ir s) = LoopIndexStmt (loop v) (loop_index v) \<longrightarrow>
            value_diff_loop_index n ir s (loop v) (loop_index v) = Some (Inr (DiffRange3 True 1 0)))
         \<and> (kind (ir s) = LoopIndexStmt lp idx \<and> width (ir s) = 1
              \<and> lp \<noteq> loop v \<and> kind (ir lp) = RangeForStmt b e
              \<and> kind (ir b) = ConstStmt (L # bs) \<and> kind (ir e) = ConstStmt (H # es) \<longrightarrow>
            value_diff_loop_index (Suc n) ir s (loop v) (loop_index v) =
              Some (Inr \<lparr>related = True, coeff = 0, low = val_int L, high = val_int H\<rparr>))
         \<and> (kind (ir s) = LoopIndexStmt lp idx \<and> width (ir s) = 1
              \<and> \<not> (lp = loop v \<and> idx = loop_index v)
              \<and> (case kind (ir lp) of
                    RangeForStmt b' e' \<Rightarrow> \<not> (is_ConstStmt (ir b') \<and> is_ConstStmt (ir e'))
                  | _ \<Rightarrow> True) \<longrightarrow>
            value_diff_loop_index (Suc n) ir s (loop v) (loop_index v) =
              Some (Inr \<lparr>related = False, coeff = 0, low = 0, high = 0\<rparr>))"
proof -
  have f: "related (DiffRange3 True 1 0)" "coeff (DiffRange3 True 1 0) = 1"
    "low (DiffRange3 True 1 0) = 0"
    by (simp_all add: DiffRange3_def DiffRange4_def)
  have o: "case kind (ir (loop v)) of
             RangeForStmt b' e' \<Rightarrow> \<not> (is_ConstStmt (ir b') \<and> is_ConstStmt (ir e'))
           | _ \<Rightarrow> True"
    using assms by auto
  have i: "loop (ValueDiffLoopIndex_init s 0 (loop v) (loop_index v)\<lparr>visited := [s]\<rparr>) = loop v"
    "loop_index (ValueDiffLoopIndex_init s 0 (loop v) (loop_index v)\<lparr>visited := [s]\<rparr>)
       = loop_index v"
    by (simp_all add: ValueDiffLoopIndex_init_def)
  have ok: "is_StructForStmt (ir (loop v)) \<or> is_OffloadedStmt (ir (loop v))"
    "\<not> (case kind (ir (loop v)) of OffloadedStmt t \<Rightarrow> t \<noteq> struct_for | _ \<Rightarrow> False)"
    using assms by (auto simp: is_StructForStmt_def is_OffloadedStmt_def)
  have 1: "lp = loop v \<and> idx = loop_index v \<longrightarrow>
            ValueDiffLoopIndex_visit_LoopIndexStmt ir st lp idx v =
              Inr (v\<lparr>results := (results v)(instance_id st := DiffRange3 True 1 0)\<rparr>)
            \<and> related (DiffRange3 True 1 0) \<and> coeff (DiffRange3 True 1 0) = 1
            \<and> low (DiffRange3 True 1 0) = 0"
    using f visit_LoopIndexStmt_tracked [where w = v and lp = lp and idx = idx and ir = ir
        and st = st]
    by blast
  have 2: "lp \<noteq> loop v \<and> kind (ir lp) = RangeForStmt b e
              \<and> kind (ir b) = ConstStmt (L # bs) \<and> kind (ir e) = ConstStmt (H # es) \<longrightarrow>
            ValueDiffLoopIndex_visit_LoopIndexStmt ir st lp idx v =
              Inr (v\<lparr>results := (results v)(instance_id st :=
                     \<lparr>related = True, coeff = 0, low = val_int L, high = val_int H\<rparr>)\<rparr>)"
    using visit_LoopIndexStmt_range [where w = v and lp = lp and idx = idx and ir = ir
        and st = st and b = b and e = e and L = L and H = H and bs = bs and es = es]
    by blast
  have 3: "\<not> (lp = loop v \<and> idx = loop_index v)
              \<and> (case kind (ir lp) of
                    RangeForStmt b' e' \<Rightarrow> \<not> (is_ConstStmt (ir b') \<and> is_ConstStmt (ir e'))
                  | _ \<Rightarrow> True) \<longrightarrow>
            ValueDiffLoopIndex_visit_LoopIndexStmt ir st lp idx v =
              Inr (v\<lparr>results := (results v)(instance_id st :=
                     \<lparr>related = False, coeff = 0, low = 0, high = 0\<rparr>)\<rparr>)"
    using visit_LoopIndexStmt_other [where w = v and lp = lp and idx = idx and ir = ir
        and st = st]
    by blast
  have 4: "lp = loop v \<and> idx \<noteq> loop_index v \<longrightarrow>
            ValueDiffLoopIndex_visit_LoopIndexStmt ir st lp idx v =
              Inr (v\<lparr>results := (results v)(instance_id st :=
                     \<lparr>related = False, coeff = 0, low = 0, high = 0\<rparr>)\<rparr>)"
    using o visit_LoopIndexStmt_other [where w = v and lp = "loop v" and idx = idx and ir = ir
        and st = st]
    by blast
  have 5: "kind (ir s) = LoopIndexStmt (loop v) (loop_index v) \<longrightarrow>
            value_diff_loop_index n ir s (loop v) (loop_index v) = Some (Inr (DiffRange3 True 1 0))"
    using ok by (simp add: value_diff_loop_index_def)
  have 6: "kind (ir s) = LoopIndexStmt lp idx \<and> width (ir s) = 1
              \<and> lp \<noteq> loop v \<and> kind (ir lp) = RangeForStmt b e
              \<and> kind (ir b) = ConstStmt (L # bs) \<and> kind (ir e) = ConstStmt (H # es) \<longrightarrow>
            value_diff_loop_index (Suc n) ir s (loop v) (loop_index v) =
              Some (Inr \<lparr>related = True, coeff = 0, low = val_int L, high = val_int H\<rparr>)"
  proof (intro impI, elim conjE)
    assume h: "kind (ir s) = LoopIndexStmt lp idx" "width (ir s) = 1" "lp \<noteq> loop v"
      "kind (ir lp) = RangeForStmt b e" "kind (ir b) = ConstStmt (L # bs)"
      "kind (ir e) = ConstStmt (H # es)"
    from h(3) have n: "\<not> (lp = loop v \<and> idx = loop_index v)" by simp
    show "value_diff_loop_index (Suc n) ir s (loop v) (loop_index v) =
              Some (Inr \<lparr>related = True, coeff = 0, low = val_int L, high = val_int H\<rparr>)"
      by (rule value_diff_loop_index_LoopIndexStmt [OF assms h(1) h(2) n])
         (rule visit_LoopIndexStmt_range [OF _ h(4) h(5) h(6)], simp add: i h(3))
  qed
  have 7: "kind (ir s) = LoopIndexStmt lp idx \<and> width (ir s) = 1
              \<and> \<not> (lp = loop v \<and> idx = loop_index v)
              \<and> (case kind (ir lp) of
                    RangeForStmt b' e' \<Rightarrow> \<not> (is_ConstStmt (ir b') \<and> is_ConstStmt (ir e'))
                  | _ \<Rightarrow> True) \<longrightarrow>
            value_diff_loop_index (Suc n) ir s (loop v) (loop_index v) =
              Some (Inr \<lparr>related = False, coeff = 0, low = 0, high = 0\<rparr>)"
  proof (intro impI, elim conjE)
    assume h: "kind (ir s) = LoopIndexStmt lp idx" "width (ir s) = 1"
      "\<not> (lp = loop v \<and> idx = loop_index v)"
      "case kind (ir lp) of
         RangeForStmt b' e' \<Rightarrow> \<not> (is_ConstStmt (ir b') \<and> is_ConstStmt (ir e'))
       | _ \<Rightarrow> True"
    show "value_diff_loop_index (Suc n) ir s (loop v) (loop_index v) =
              Some (Inr \<lparr>related = False, coeff = 0, low = 0, high = 0\<rparr>)"
      by (rule value_diff_loop_index_LoopIndexStmt [OF assms h(1) h(2) h(3)])
         (rule visit_LoopIndexStmt_other [OF _ h(4)], simp add: i h(3))
  qed
  from 1 2 3 4 5 6 7 show ?thesis by blast
qed

text \<open>
  On \<open>loop_IR\<close>, tracking index 0 of the structured loop 2. The visits of the index 3 of
  loop 2 and of the index 12 of the range loop 11 over \<open>[0, 10)\<close>, with the entry they leave
  in the table; then the queries on 3 (the tracked variable), on 12, and on 3 when index 1 of
  loop 2 is tracked.
\<close>

theorem visit_LoopIndexStmt_fact_witness:
  "(case ValueDiffLoopIndex_visit_LoopIndexStmt loop_IR (loop_IR 3) 2 0
           (ValueDiffLoopIndex_init 6 0 2 0) of
      Inl err \<Rightarrow> DiffRange0 | Inr v' \<Rightarrow> results v' 3)
     = \<lparr>related = True, coeff = 1, low = 0, high = 1\<rparr>
   \<and> (case ValueDiffLoopIndex_visit_LoopIndexStmt loop_IR (loop_IR 12) 11 0
           (ValueDiffLoopIndex_init 6 0 2 0) of
      Inl err \<Rightarrow> DiffRange0 | Inr v' \<Rightarrow> results v' 12)
     = \<lparr>related = True, coeff = 0, low = 0, high = 10\<rparr>
   \<and> value_diff_loop_index 0 loop_IR 3 2 0
     = Some (Inr \<lparr>related = True, coeff = 1, low = 0, high = 1\<rparr>)
   \<and> value_diff_loop_index (Suc 0) loop_IR 12 2 0
     = Some (Inr \<lparr>related = True, coeff = 0, low = 0, high = 10\<rparr>)
   \<and> value_diff_loop_index (Suc 0) loop_IR 3 2 1
     = Some (Inr \<lparr>related = False, coeff = 0, low = 0, high = 0\<rparr>)"
proof -
  let ?v = "ValueDiffLoopIndex_init 6 0 2 0"
  let ?u = "ValueDiffLoopIndex_init 6 0 2 1"
  have v: "loop ?v = 2" "loop_index ?v = 0" "loop ?u = 2" "loop_index ?u = 1"
    by (simp_all add: ValueDiffLoopIndex_init_def)
  have k: "kind (loop_IR (loop ?v)) = StructForStmt \<or> kind (loop_IR (loop ?v)) = OffloadedStmt struct_for"
    "kind (loop_IR (loop ?u)) = StructForStmt \<or> kind (loop_IR (loop ?u)) = OffloadedStmt struct_for"
    "kind (loop_IR 11) = RangeForStmt 9 10"
    "kind (loop_IR 9) = ConstStmt (\<lparr>dt = i32, val_i32 = 0, val_int = 0\<rparr> # [])"
    "kind (loop_IR 10) = ConstStmt (\<lparr>dt = i32, val_i32 = 10, val_int = 10\<rparr> # [])"
    "kind (loop_IR 3) = LoopIndexStmt 2 0" "kind (loop_IR 12) = LoopIndexStmt 11 0"
    "kind (loop_IR 2) = StructForStmt"
    "width (loop_IR 3) = 1" "width (loop_IR 12) = 1"
    "instance_id (loop_IR 3) = 3" "instance_id (loop_IR 12) = 12"
    by (simp_all add: example_defs ValueDiffLoopIndex_init_def)
  from visit_LoopIndexStmt_fact [where ir = loop_IR and v = ?v and lp = 2 and idx = 0
      and st = "loop_IR 3" and s = 3 and n = 0]
    visit_LoopIndexStmt_fact [where ir = loop_IR and v = ?v and lp = 11 and idx = 0
      and st = "loop_IR 12" and s = 12 and n = 0 and b = 9 and e = 10 and bs = "[]" and es = "[]"]
    visit_LoopIndexStmt_fact [where ir = loop_IR and v = ?u and lp = 2 and idx = 0
      and st = "loop_IR 3" and s = 3 and n = 0]
    v k
  show ?thesis by (simp add: DiffRange3_def DiffRange4_def)
qed

subsection \<open>Binary operations\<close>

text \<open>
  C3. When the loop-relative visitor accepts a binary operation: if the operator is neither
  \<open>add\<close> nor \<open>sub\<close> the fact stored for the statement is unrelated
  (\<open>related = false, coeff = 0\<close>) and no operand is visited; if it is \<open>add\<close> or \<open>sub\<close> and
  the visits of \<open>lhs\<close> and then \<open>rhs\<close> return, the stored fact is the composition by \<open>+\<close>
  (resp. \<open>-\<close>) of the two operand facts when both are related, and unrelated as soon as one
  of them is unrelated.
\<close>

theorem visit_BinaryOpStmt_fact:
  assumes "kind (ir s) = BinaryOpStmt op_type lhs rhs"
  shows "(op_type \<noteq> add \<and> op_type \<noteq> sub \<longrightarrow>
            ValueDiffLoopIndex_accept (Suc n) ir s v =
              Some (Inr (set_result (ir s) \<lparr>related = False, coeff = 0, low = 0, high = 0\<rparr>
                          (v\<lparr>visited := visited v @ [s]\<rparr>))))
         \<and> ((op_type = add \<or> op_type = sub)
              \<and> ValueDiffLoopIndex_accept n ir lhs (v\<lparr>visited := visited v @ [s]\<rparr>) = Some (Inr v1)
              \<and> ValueDiffLoopIndex_accept n ir rhs v1 = Some (Inr v2) \<longrightarrow>
            ValueDiffLoopIndex_accept (Suc n) ir s v =
              Some (Inr (set_result (ir s)
                (if related (results v2 (instance_id (ir lhs))) \<and> related (results v2 (instance_id (ir rhs)))
                 then (if op_type = add
                       then DiffRange_plus (results v2 (instance_id (ir lhs))) (results v2 (instance_id (ir rhs)))
                       else DiffRange_minus (results v2 (instance_id (ir lhs))) (results v2 (instance_id (ir rhs))))
                 else \<lparr>related = False, coeff = 0, low = 0, high = 0\<rparr>) v2)))"
  using assms
  by (simp add: ValueDiffLoopIndex_visit_BinaryOpStmt_def Let_def DiffRange2_def DiffRange4_def)

text \<open>
  On \<open>loop_IR\<close>, tracking index 0 of loop 2: \<open>load + idx\<close> (statement 4) is unrelated
  although \<open>idx\<close> is related, \<open>idx + 3\<close> (statement 6) composes to
  \<open>coeff = 1, low = 3, high = 4\<close>, and \<open>idx + 3 - 1\<close> (statement 8) to
  \<open>coeff = 1, low = 2, high = 3\<close>.
\<close>

theorem visit_BinaryOpStmt_fact_witness:
  "ValueDiffLoopIndex_run (Suc (Suc 0)) loop_IR (ValueDiffLoopIndex_init 4 0 2 0)
     = Some (Inr \<lparr>related = False, coeff = 0, low = 0, high = 0\<rparr>)
   \<and> ValueDiffLoopIndex_run (Suc (Suc 0)) loop_IR (ValueDiffLoopIndex_init 6 0 2 0)
     = Some (Inr \<lparr>related = True, coeff = 1, low = 3, high = 4\<rparr>)
   \<and> ValueDiffLoopIndex_run (Suc (Suc (Suc 0))) loop_IR (ValueDiffLoopIndex_init 8 0 2 0)
     = Some (Inr \<lparr>related = True, coeff = 1, low = 2, high = 3\<rparr>)"
proof -
  let ?u = "ValueDiffLoopIndex_init 4 0 2 0"
  let ?w = "?u\<lparr>visited := visited ?u @ [4]\<rparr>"
  let ?u1 = "set_result (loop_IR 1) DiffRange0 (?w\<lparr>visited := visited ?w @ [1]\<rparr>)"
  let ?u2 = "set_result (loop_IR 3) (DiffRange3 True 1 0) (?u1\<lparr>visited := visited ?u1 @ [3]\<rparr>)"
  have k4: "kind (loop_IR 4) = BinaryOpStmt add 1 3"
    by (simp add: example_defs)
  have a1: "ValueDiffLoopIndex_accept (Suc 0) loop_IR 1 ?w = Some (Inr ?u1)"
    by (simp add: ValueDiffLoopIndex_defs example_defs)
  have a2: "ValueDiffLoopIndex_accept (Suc 0) loop_IR 3 ?u1 = Some (Inr ?u2)"
    by (simp add: ValueDiffLoopIndex_defs example_defs)
  from visit_BinaryOpStmt_fact [where ir = loop_IR and s = 4 and n = "Suc 0" and v = ?u
      and ?v1.0 = ?u1 and ?v2.0 = ?u2] k4 a1 a2
  have r4: "ValueDiffLoopIndex_accept (Suc (Suc 0)) loop_IR 4 ?u =
      Some (Inr (set_result (loop_IR 4) \<lparr>related = False, coeff = 0, low = 0, high = 0\<rparr> ?u2))"
    by (simp add: example_defs set_result_def DiffRange0_def DiffRange2_def DiffRange4_def
        ValueDiffLoopIndex_init_def)
  let ?x = "ValueDiffLoopIndex_init 6 0 2 0"
  let ?y = "?x\<lparr>visited := visited ?x @ [6]\<rparr>"
  let ?x1 = "set_result (loop_IR 3) (DiffRange3 True 1 0) (?y\<lparr>visited := visited ?y @ [3]\<rparr>)"
  let ?x2 = "set_result (loop_IR 5) (DiffRange3 True 0 3) (?x1\<lparr>visited := visited ?x1 @ [5]\<rparr>)"
  have k6: "kind (loop_IR 6) = BinaryOpStmt add 3 5"
    by (simp add: example_defs)
  have b1: "ValueDiffLoopIndex_accept (Suc 0) loop_IR 3 ?y = Some (Inr ?x1)"
    by (simp add: ValueDiffLoopIndex_defs example_defs)
  have b2: "ValueDiffLoopIndex_accept (Suc 0) loop_IR 5 ?x1 = Some (Inr ?x2)"
    by (simp add: ValueDiffLoopIndex_defs example_defs)
  from visit_BinaryOpStmt_fact [where ir = loop_IR and s = 6 and n = "Suc 0" and v = ?x
      and ?v1.0 = ?x1 and ?v2.0 = ?x2] k6 b1 b2
  have r6: "ValueDiffLoopIndex_accept (Suc (Suc 0)) loop_IR 6 ?x =
      Some (Inr (set_result (loop_IR 6) \<lparr>related = True, coeff = 1, low = 3, high = 4\<rparr> ?x2))"
    by (simp add: example_defs set_result_def DiffRange3_def DiffRange4_def
        DiffRange_plus_def ValueDiffLoopIndex_init_def)
  let ?p = "ValueDiffLoopIndex_init 8 0 2 0"
  let ?q = "?p\<lparr>visited := visited ?p @ [8]\<rparr>"
  let ?p1 = "set_result (loop_IR 6) \<lparr>related = True, coeff = 1, low = 3, high = 4\<rparr>
               (set_result (loop_IR 5) (DiffRange3 True 0 3)
                 (set_result (loop_IR 3) (DiffRange3 True 1 0) (?q\<lparr>visited := [8, 6, 3, 5]\<rparr>)))"
  let ?p2 = "set_result (loop_IR 7) (DiffRange3 True 0 1) (?p1\<lparr>visited := visited ?p1 @ [7]\<rparr>)"
  have k8: "kind (loop_IR 8) = BinaryOpStmt sub 6 7"
    by (simp add: example_defs)
  have c1: "ValueDiffLoopIndex_accept (Suc (Suc 0)) loop_IR 6 ?q = Some (Inr ?p1)"
    by (simp add: ValueDiffLoopIndex_defs example_defs)
  have c2: "ValueDiffLoopIndex_accept (Suc (Suc 0)) loop_IR 7 ?p1 = Some (Inr ?p2)"
    by (simp add: ValueDiffLoopIndex_defs example_defs)
  from visit_BinaryOpStmt_fact [where ir = loop_IR and s = 8 and n = "Suc (Suc 0)" and v = ?p
      and ?v1.0 = ?p1 and ?v2.0 = ?p2] k8 c1 c2
  have r8: "ValueDiffLoopIndex_accept (Suc (Suc (Suc 0))) loop_IR 8 ?p =
      Some (Inr (set_result (loop_IR 8) \<lparr>related = True, coeff = 1, low = 2, high = 3\<rparr> ?p2))"
    by (simp add: example_defs set_result_def DiffRange3_def DiffRange4_def
        DiffRange_minus_def ValueDiffLoopIndex_init_def)
  have i: "input_stmt ?u2 = 4" "input_stmt ?x2 = 6" "input_stmt ?p2 = 8"
    by (simp_all add: set_result_def ValueDiffLoopIndex_init_def)
  have "ValueDiffLoopIndex_run (Suc (Suc 0)) loop_IR ?u
          = Some (Inr \<lparr>related = False, coeff = 0, low = 0, high = 0\<rparr>)"
    unfolding ValueDiffLoopIndex_run_def
    using r4 i(1) by (simp add: set_result_def ValueDiffLoopIndex_init_def)
  moreover have "ValueDiffLoopIndex_run (Suc (Suc 0)) loop_IR ?x
          = Some (Inr \<lparr>related = True, coeff = 1, low = 3, high = 4\<rparr>)"
    unfolding ValueDiffLoopIndex_run_def
    using r6 i(2) by (simp add: set_result_def ValueDiffLoopIndex_init_def)
  moreover have "ValueDiffLoopIndex_run (Suc (Suc (Suc 0))) loop_IR ?p
          = Some (Inr \<lparr>related = True, coeff = 1, low = 2, high = 3\<rparr>)"
    unfolding ValueDiffLoopIndex_run_def
    using r8 i(3) by (simp add: set_result_def ValueDiffLoopIndex_init_def)
  ultimately show ?thesis by simp
qed

subsection \<open>The table does not prevent a second visit\<close>

lemma walk_set_result [simp]: "walk (set_result st d v) = walk v"
  by (simp add: walk_def set_result_def)


lemma walk_of_simps [simp]:
  "walk_of None = None"
  "walk_of (Some (Inl e)) = Some (Inl e)"
  "walk_of (Some (Inr v)) = Some (Inr (walk v))"
  by (simp_all add: walk_of_def)












lemma visited_set_result [simp]: "visited (set_result st d v) = visited v"
  by (simp add: set_result_def)


















subsection \<open>Termination on graphs whose operands have a smaller rank\<close>

lemma visit_BinaryOpStmt_returns:
  assumes "\<And>v. \<exists>r. acc lhs v = Some r" and "\<And>v. \<exists>r. acc rhs v = Some r"
  shows "\<exists>r. ValueDiffLoopIndex_visit_BinaryOpStmt acc ir st op_type lhs rhs w = Some r"
proof -
  obtain r1 where 1: "acc lhs w = Some r1" using assms(1) by blast
  show ?thesis
  proof (cases r1)
    case (Inl e)
    with 1 show ?thesis by (simp add: ValueDiffLoopIndex_visit_BinaryOpStmt_def)
  next
    case (Inr v1)
    obtain r2 where 2: "acc rhs v1 = Some r2" using assms(2) by blast
    with 1 Inr show ?thesis
      by (cases r2) (simp_all add: ValueDiffLoopIndex_visit_BinaryOpStmt_def Let_def)
  qed
qed

lemma visit_RangeAssumptionStmt_returns:
  assumes "\<And>v. \<exists>r. acc base v = Some r"
  shows "\<exists>r. ValueDiffLoopIndex_visit_RangeAssumptionStmt acc ir st base lo hi w = Some r"
proof -
  obtain r1 where 1: "acc base w = Some r1" using assms(1) by blast
  then show ?thesis
    by (cases r1) (simp_all add: ValueDiffLoopIndex_visit_RangeAssumptionStmt_def)
qed

lemma visit_ElementShuffleStmt_returns:
  assumes "\<And>el v. el \<in> set elements \<Longrightarrow> \<exists>r. acc (stmt el) v = Some r"
  shows "\<exists>r. ValueDiffLoopIndex_visit_ElementShuffleStmt acc ir st elements w = Some r"
proof (cases "lane_at elements (lane w)")
  case (Inl e)
  then show ?thesis by (simp add: ValueDiffLoopIndex_visit_ElementShuffleStmt_def Let_def)
next
  case (Inr el)
  then have "el \<in> set elements" by (rule lane_at_in_set)
  from assms [OF this] obtain r1 where "acc (stmt el) (w\<lparr>lane := index el\<rparr>) = Some r1" by blast
  with Inr show ?thesis
    by (cases r1) (simp_all add: ValueDiffLoopIndex_visit_ElementShuffleStmt_def Let_def)
qed

text \<open>
  When every operand pointer leads to a statement of smaller rank (the operand chain is
  acyclic), a traversal with more fuel than the rank of its root returns or aborts on an
  assertion: it does not run out of fuel.
\<close>

lemma accept_returns:
  assumes rank: "\<And>s t. t \<in> set (operands (ir s)) \<Longrightarrow> rank t < (rank s :: nat)"
  shows "rank s < n \<Longrightarrow> \<exists>r. ValueDiffLoopIndex_accept n ir s v = Some r"
proof (induction n arbitrary: s v)
  case 0
  then show ?case by simp
next
  case (Suc n)
  have sub: "\<exists>r. ValueDiffLoopIndex_accept n ir t u = Some r" if "t \<in> set (operands (ir s))" for t u
    using rank [OF that] Suc.prems by (intro Suc.IH) simp
  show ?case
  proof (cases "kind (ir s)")
    case (BinaryOpStmt op_type lhs rhs)
    then have "lhs \<in> set (operands (ir s))" "rhs \<in> set (operands (ir s))"
      by (simp_all add: operands_def)
    with BinaryOpStmt visit_BinaryOpStmt_returns [of "ValueDiffLoopIndex_accept n ir" lhs rhs]
    show ?thesis by (simp add: Let_def sub)
  next
    case (ElementShuffleStmt elements)
    then have "stmt el \<in> set (operands (ir s))" if "el \<in> set elements" for el
      using that by (simp add: operands_def)
    with ElementShuffleStmt
      visit_ElementShuffleStmt_returns [of elements "ValueDiffLoopIndex_accept n ir"]
    show ?thesis by (simp add: Let_def sub)
  next
    case (RangeAssumptionStmt input base lo hi)
    then have "base \<in> set (operands (ir s))" by (simp add: operands_def)
    with RangeAssumptionStmt
      visit_RangeAssumptionStmt_returns [of "ValueDiffLoopIndex_accept n ir" base]
    show ?thesis by (simp add: Let_def sub)
  qed (simp_all add: Let_def)
qed

end
